theory Spec2Isabelle
  imports Complex_Main
begin

section \<open>GNSS satellites: position and clock from SP3 files (gnss_satellites.cpp)\<close>

text \<open>
  A shallow embedding of the class \<open>GnssSatellites\<close> and of \<open>InitGnssSatellites\<close>.
  Conventions of the model:
  \<^item> a C++ \<open>double\<close> is a \<open>real\<close>: the properties below are about control flow,
    comparisons and indices, not about rounding;
  \<^item> a \<open>size_t\<close> index or counter is a \<open>nat\<close>; the counters of the class are bounded
    by the sizes of in-memory vectors and never reach \<open>2 ^ 64\<close>;
  \<^item> \<open>operator[]\<close> of \<open>std::vector\<close> outside the vector has no defined behaviour in
    C++: every such access is an explicit \<open>Inl (OutOfRange v)\<close> of the model, naming the
    vector;
  \<^item> text written to \<open>std::cout\<close> is appended to the field \<open>console\<close> of the manager;
  \<^item> the conversion \<open>EpochTime(DateTime)\<close> is calendar arithmetic outside this file: a
    \<open>DateTime\<close> is identified with the \<open>EpochTime\<close> it converts to.
\<close>

subsection \<open>Collaborators\<close>

text \<open>
  Modelled from the spec: the class \<open>EpochTime\<close> is not part of the sources at hand. It
  is the spec's time collaborator, a continuous count of seconds, held as the getters
  used here read it: whole seconds (\<open>GetTime_s\<close>) and a fraction of a second, whose sum is
  \<open>GetTimeWithFraction_s\<close>.
\<close>

record EpochTime =
  time_s :: nat
  fraction_s :: real

definition GetTime_s :: "EpochTime \<Rightarrow> nat" where
  "GetTime_s t = time_s t"

definition GetTimeWithFraction_s :: "EpochTime \<Rightarrow> real" where
  "GetTimeWithFraction_s t = real (time_s t) + fraction_s t"

text \<open>\<open>libra::Vector<3>\<close>, its zero \<open>libra::Vector<3>(0.0)\<close> and its product with a scalar.\<close>

type_synonym vec3 = "real \<times> real \<times> real"

definition zero_vector :: vec3 where
  "zero_vector = (0, 0, 0)"

definition scale :: "real \<Rightarrow> vec3 \<Rightarrow> vec3" where
  "scale k v = (case v of (x, y, z) \<Rightarrow> (k * x, k * y, k * z))"

text \<open>
  The class \<open>Sp3FileReader\<close> is not part of the sources at hand and is used through its
  getters only: a reader is a parameter, the record of what each getter answers. What a
  getter answers outside the file's epochs or satellites is the reader's business and is
  left to the function stored here.
\<close>

record Sp3FileReader =
  GetNumberOfEpoch :: nat
  GetNumberOfSatellites :: nat
  GetStartEpochDateTime :: EpochTime
  GetEpochData :: "nat \<Rightarrow> EpochTime"
  GetSatellitePosition_km :: "nat \<Rightarrow> nat \<Rightarrow> vec3"
  GetSatelliteClockOffset :: "nat \<Rightarrow> nat \<Rightarrow> real"
  SearchNearestEpochId :: "EpochTime \<Rightarrow> nat"

text \<open>
  Modelled from the spec: the classes \<open>libra::Interpolation\<close> and \<open>InterpolationOrbit\<close>
  are not part of the sources at hand. The buffer is the spec's fixed-capacity window of
  (time-offset, value) samples: a push appends one sample and evicts the oldest one when
  the buffer is at capacity.
\<close>

record 'v interpolation_buffer =
  capacity :: nat
  samples :: "(real \<times> 'v) list"

type_synonym Interpolation = "real interpolation_buffer"
type_synonym InterpolationOrbit = "vec3 interpolation_buffer"

text \<open>
  Modelled from the spec: \<open>PushAndPopData\<close> is the spec's push with eviction.
\<close>

definition PushAndPopData :: "real \<Rightarrow> 'v \<Rightarrow> 'v interpolation_buffer \<Rightarrow> 'v interpolation_buffer" where
  "PushAndPopData t v b =
     b\<lparr>samples := (if capacity b \<le> length (samples b) then tl (samples b) else samples b) @ [(t, v)]\<rparr>"

text \<open>
  Modelled from the spec: \<open>GetTimeList\<close> gives the time-offsets of the buffered samples,
  oldest first.
\<close>

definition GetTimeList :: "'v interpolation_buffer \<Rightarrow> real list" where
  "GetTimeList b = map fst (samples b)"

text \<open>
  Modelled from the spec: \<open>InterpolationOrbit(degree)\<close> makes an orbit buffer of the
  given capacity that holds no pushed sample yet.
\<close>

definition new_InterpolationOrbit :: "nat \<Rightarrow> InterpolationOrbit" where
  "new_InterpolationOrbit degree = \<lparr>capacity = degree, samples = []\<rparr>"

text \<open>
  Modelled from the spec: \<open>libra::Interpolation(xs, ys)\<close> makes a buffer pre-filled with
  the given samples, at capacity.
\<close>

definition new_Interpolation :: "real list \<Rightarrow> real list \<Rightarrow> Interpolation" where
  "new_Interpolation xs ys = \<lparr>capacity = length xs, samples = zip xs ys\<rparr>"

text \<open>
  Modelled from the spec: \<open>CalcPolynomial\<close> evaluates the polynomial fitted to the
  buffered (time, clock) samples, here in Lagrange form.
\<close>

definition lagrange_basis :: "real list \<Rightarrow> nat \<Rightarrow> real \<Rightarrow> real" where
  "lagrange_basis xs i x =
     prod_list (map (\<lambda>j. (x - xs ! j) / (xs ! i - xs ! j)) (filter (\<lambda>j. j \<noteq> i) [0..<length xs]))"

definition CalcPolynomial :: "Interpolation \<Rightarrow> real \<Rightarrow> real" where
  "CalcPolynomial b x =
     sum_list (map (\<lambda>i. snd (samples b ! i) * lagrange_basis (GetTimeList b) i x) [0..<length (samples b)])"

text \<open>The constant \<open>libra::tau\<close> of library/math/constants.hpp.\<close>

definition tau :: real where
  "tau = 2 * pi"

subsection \<open>The manager\<close>

text \<open>
  The failures of the model: an index outside \<open>sp3_files_\<close>, \<open>orbit_\<close>, \<open>clock_\<close> or the
  time list of a buffer, and (in the setup) a substring position outside the clock file
  name footer.
\<close>

datatype container = Sp3Files | Orbit | Clock | TimeList | ClockFileNameFooter

datatype error = OutOfRange container

definition kNumberOfInterpolation :: nat where
  "kNumberOfInterpolation = 9"

record GnssSatellites =
  is_calc_enabled :: bool
  is_log_enabled :: bool
  sp3_files :: "Sp3FileReader list"
  number_of_calculated_gnss_satellites :: nat
  sp3_file_id :: nat
  reference_time :: EpochTime
  reference_interpolation_id :: nat
  current_epoch_time :: EpochTime
  orbit :: "InterpolationOrbit list"
  clock :: "Interpolation list"
  console :: "string list"

text \<open>The flag that the constructor stores and \<open>IsCalcEnabled()\<close> reads.\<close>

definition IsCalcEnabled :: "GnssSatellites \<Rightarrow> bool" where
  "IsCalcEnabled s = is_calc_enabled s"

text \<open>
  Modelled from the spec: the constructor of the header gnss_satellites.hpp, which is not
  part of the sources at hand. A fresh manager has no file, no buffer, and its indices
  are zero.
\<close>

definition new_GnssSatellites :: "bool \<Rightarrow> bool \<Rightarrow> GnssSatellites" where
  "new_GnssSatellites is_calc_enable is_log_enable =
     \<lparr>is_calc_enabled = is_calc_enable, is_log_enabled = is_log_enable, sp3_files = [],
      number_of_calculated_gnss_satellites = 0, sp3_file_id = 0,
      reference_time = \<lparr>time_s = 0, fraction_s = 0\<rparr>, reference_interpolation_id = 0,
      current_epoch_time = \<lparr>time_s = 0, fraction_s = 0\<rparr>, orbit = [], clock = [],
      console = []\<rparr>"

text \<open>A counted \<open>for\<close> loop whose body may fail; the first failure ends the run.\<close>

primrec for_loop :: "nat list \<Rightarrow> (nat \<Rightarrow> 's \<Rightarrow> error + 's) \<Rightarrow> 's \<Rightarrow> error + 's" where
  "for_loop [] body s = Inr s"
| "for_loop (i # is) body s =
     (case body i s of Inl e \<Rightarrow> Inl e | Inr s' \<Rightarrow> for_loop is body s')"

text \<open>
  \<open>GetCurrentSp3File\<close>: the scan over \<open>sp3_files_\<close>, from index \<open>i\<close> on. It gives up at
  the first file that starts after \<open>current_time\<close>, and takes the first file that starts
  less than a day before it.
\<close>

primrec search_sp3_file :: "Sp3FileReader list \<Rightarrow> nat \<Rightarrow> EpochTime \<Rightarrow> nat option" where
  "search_sp3_file [] i current_time = None"
| "search_sp3_file (f # fs) i current_time =
     (let diff_s = GetTimeWithFraction_s current_time
                   - GetTimeWithFraction_s (GetStartEpochDateTime f)
      in if diff_s < 0 then None
         else if diff_s < 24 * 60 * 60 then Some i
         else search_sp3_file fs (Suc i) current_time)"

text \<open>
  The result is the returned flag, the file left in the reference parameter, and the
  manager.
\<close>

definition GetCurrentSp3File ::
  "GnssSatellites \<Rightarrow> Sp3FileReader \<Rightarrow> EpochTime \<Rightarrow> bool \<times> Sp3FileReader \<times> GnssSatellites" where
  "GetCurrentSp3File s current_sp3_file current_time =
     (case search_sp3_file (sp3_files s) 0 current_time of
        None \<Rightarrow> (False, current_sp3_file, s)
      | Some i \<Rightarrow> (True, sp3_files s ! i, s\<lparr>sp3_file_id := i\<rparr>))"

text \<open>
  The body of the loop over satellites (the same statements in \<open>Initialize\<close> and in
  \<open>Update\<close>): one sample of the file, at the epoch \<open>reference_interpolation_id_\<close>,
  is pushed into the orbit buffer and into the clock buffer of satellite \<open>gnss_idx\<close>.
\<close>

definition sample_time_diff_s :: "Sp3FileReader \<Rightarrow> GnssSatellites \<Rightarrow> real" where
  "sample_time_diff_s sp3_file s =
     GetTimeWithFraction_s (GetEpochData sp3_file (reference_interpolation_id s))
     - GetTimeWithFraction_s (reference_time s)"

definition push_sample :: "Sp3FileReader \<Rightarrow> nat \<Rightarrow> GnssSatellites \<Rightarrow> error + GnssSatellites" where
  "push_sample sp3_file gnss_idx s =
     (let time_diff_s = sample_time_diff_s sp3_file s;
          sp3_position_m = scale 1000 (GetSatellitePosition_km sp3_file (reference_interpolation_id s) gnss_idx)
      in if \<not> gnss_idx < length (orbit s) then Inl (OutOfRange Orbit)
         else if \<not> gnss_idx < length (clock s) then Inl (OutOfRange Clock)
         else Inr (s\<lparr>orbit := (orbit s)[gnss_idx := PushAndPopData time_diff_s sp3_position_m (orbit s ! gnss_idx)],
                    clock := (clock s)[gnss_idx := PushAndPopData time_diff_s
                               (GetSatelliteClockOffset sp3_file (reference_interpolation_id s) gnss_idx)
                               (clock s ! gnss_idx)]\<rparr>))"

text \<open>
  The statements after the loop over satellites (again the same in both functions): the
  epoch index advances; at the end of the file it returns to 0 and the file index
  advances; past the last file the message is printed, and the file at the new index is
  read all the same.
\<close>

definition file_range_over :: string where
  "file_range_over = ''[Error] GNSS satellites: SP3 file range over.''"

definition file_update :: "Sp3FileReader \<Rightarrow> GnssSatellites \<Rightarrow> error + (Sp3FileReader \<times> GnssSatellites)" where
  "file_update sp3_file s =
     (let s1 = s\<lparr>reference_interpolation_id := reference_interpolation_id s + 1\<rparr>
      in if reference_interpolation_id s1 \<ge> GetNumberOfEpoch sp3_file then
           (let s2 = s1\<lparr>reference_interpolation_id := 0, sp3_file_id := sp3_file_id s1 + 1\<rparr>;
                s3 = (if sp3_file_id s2 \<ge> length (sp3_files s2)
                      then s2\<lparr>console := console s2 @ [file_range_over]\<rparr> else s2)
            in if sp3_file_id s3 < length (sp3_files s3)
               then Inr (sp3_files s3 ! sp3_file_id s3, s3)
               else Inl (OutOfRange Sp3Files))
         else Inr (sp3_file, s1))"

text \<open>
  One round of the seeding loop of \<open>Initialize\<close>: its state is the local variable
  \<open>initial_sp3_file\<close> and the manager.
\<close>

definition seed_step :: "nat \<Rightarrow> Sp3FileReader \<times> GnssSatellites \<Rightarrow> error + (Sp3FileReader \<times> GnssSatellites)" where
  "seed_step i fs =
     (case fs of (initial_sp3_file, s) \<Rightarrow>
        (case for_loop [0..<number_of_calculated_gnss_satellites s] (push_sample initial_sp3_file) s of
           Inl e \<Rightarrow> Inl e
         | Inr s' \<Rightarrow> file_update initial_sp3_file s'))"

definition time_mismatch :: string where
  "time_mismatch = ''[Error] GNSS satellites: Calculation time mismatch with SP3 files.''"

text \<open>
  \<open>Initialize\<close>, after the file is found: the general information, the empty buffers,
  and the nine seeding rounds.
\<close>

definition seed_buffers :: "Sp3FileReader \<Rightarrow> GnssSatellites \<Rightarrow> EpochTime \<Rightarrow> error + GnssSatellites" where
  "seed_buffers initial_sp3_file s1 start_time =
     (let s2 = s1\<lparr>number_of_calculated_gnss_satellites := GetNumberOfSatellites initial_sp3_file\<rparr>;
          nearest_epoch_id = SearchNearestEpochId initial_sp3_file start_time;
          half_interpolation_number = kNumberOfInterpolation div 2;
          s3 = (if nearest_epoch_id \<ge> half_interpolation_number
                then s2\<lparr>reference_interpolation_id := nearest_epoch_id - half_interpolation_number\<rparr>
                else s2);
          s4 = s3\<lparr>reference_time := GetEpochData initial_sp3_file (reference_interpolation_id s3)\<rparr>;
          s5 = s4\<lparr>orbit := replicate (number_of_calculated_gnss_satellites s4)
                              (new_InterpolationOrbit kNumberOfInterpolation)\<rparr>;
          temp = replicate kNumberOfInterpolation (- 1);
          s6 = s5\<lparr>clock := replicate (number_of_calculated_gnss_satellites s5)
                              (new_Interpolation temp temp)\<rparr>
      in map_sum id snd (for_loop [0..<kNumberOfInterpolation] seed_step (initial_sp3_file, s6)))"

definition Initialize :: "GnssSatellites \<Rightarrow> Sp3FileReader list \<Rightarrow> EpochTime \<Rightarrow> error + GnssSatellites" where
  "Initialize s0 files start_time =
     (let s = s0\<lparr>sp3_files := files, current_epoch_time := start_time\<rparr>
      in if sp3_files s = [] then Inl (OutOfRange Sp3Files)
         else
           (case GetCurrentSp3File s (sp3_files s ! 0) start_time of
              (False, _, s1) \<Rightarrow> Inr (s1\<lparr>console := console s1 @ [time_mismatch]\<rparr>)
            | (True, initial_sp3_file, s1) \<Rightarrow> seed_buffers initial_sp3_file s1 start_time))"

text \<open>
  \<open>Update\<close>. The argument is the epoch time made from the simulation's current UTC.
  The test of its \<open>if\<close> is also given a name, as a predicate of the manager before the
  call and the new current time.
\<close>

definition refill_triggered :: "GnssSatellites \<Rightarrow> EpochTime \<Rightarrow> bool" where
  "refill_triggered s t =
     (GetTimeWithFraction_s t - GetTimeWithFraction_s (reference_time s)
        > GetTimeList (orbit s ! 0) ! 4)"

definition Update :: "GnssSatellites \<Rightarrow> EpochTime \<Rightarrow> error + GnssSatellites" where
  "Update s0 current_date_time =
     (if \<not> IsCalcEnabled s0 then Inr s0
      else
        (let s = s0\<lparr>current_epoch_time := current_date_time\<rparr>
         in if \<not> sp3_file_id s < length (sp3_files s) then Inl (OutOfRange Sp3Files)
            else
              (let sp3_file = sp3_files s ! sp3_file_id s;
                   diff_s = GetTimeWithFraction_s (current_epoch_time s)
                            - GetTimeWithFraction_s (reference_time s)
               in if orbit s = [] then Inl (OutOfRange Orbit)
                  else if \<not> 4 < length (GetTimeList (orbit s ! 0)) then Inl (OutOfRange TimeList)
                  else
                    (let medium_time_s = GetTimeList (orbit s ! 0) ! 4
                     in if diff_s > medium_time_s then
                          (case for_loop [0..<32] (push_sample sp3_file) s of
                             Inl e \<Rightarrow> Inl e
                           | Inr s' \<Rightarrow> map_sum id snd (file_update sp3_file s'))
                        else Inr s))))"

text \<open>
  The getters. \<open>CalcPositionWithTrigonometric\<close> of \<open>InterpolationOrbit\<close> is not part of
  the sources at hand and is a parameter.
\<close>

definition kOrbitalPeriodCorrection_s :: real where
  "kOrbitalPeriodCorrection_s = 24 * 60 * 60 * 1.003"

definition GetPosition_ecef_m ::
  "(InterpolationOrbit \<Rightarrow> real \<Rightarrow> real \<Rightarrow> vec3) \<Rightarrow> GnssSatellites \<Rightarrow> nat \<Rightarrow> EpochTime \<Rightarrow> error + vec3" where
  "GetPosition_ecef_m CalcPositionWithTrigonometric s gnss_satellite_id time =
     (if gnss_satellite_id > number_of_calculated_gnss_satellites s then Inr zero_vector
      else
        (let target_time = (if GetTime_s time = 0 then current_epoch_time s else time);
             diff_s = GetTimeWithFraction_s target_time - GetTimeWithFraction_s (reference_time s)
         in if diff_s < 0 \<or> diff_s > 1000000 then Inr zero_vector
            else if \<not> gnss_satellite_id < length (orbit s) then Inl (OutOfRange Orbit)
            else Inr (CalcPositionWithTrigonometric (orbit s ! gnss_satellite_id) diff_s
                        (tau / kOrbitalPeriodCorrection_s))))"

definition GetClock_s :: "GnssSatellites \<Rightarrow> nat \<Rightarrow> EpochTime \<Rightarrow> error + real" where
  "GetClock_s s gnss_satellite_id time =
     (if gnss_satellite_id > number_of_calculated_gnss_satellites s then Inr 0
      else
        (let target_time = (if GetTime_s time = 0 then current_epoch_time s else time);
             diff_s = GetTimeWithFraction_s target_time - GetTimeWithFraction_s (reference_time s)
         in if diff_s < 0 \<or> diff_s > 1000000 then Inr 0
            else if \<not> gnss_satellite_id < length (clock s) then Inl (OutOfRange Clock)
            else Inr (CalcPolynomial (clock s ! gnss_satellite_id) diff_s * (1 / 1000000))))"

subsection \<open>Setup from the configuration file\<close>

text \<open>
  The section \<open>GNSS_SATELLITES\<close> of the configuration file, as \<open>IniAccess\<close> reads it, and
  the library functions \<open>InitGnssSatellites\<close> calls: the constructor of the SP3 reader
  (from a path), \<open>GetOrbitClockFinalFileName\<close> and \<open>IncrementYearDoy\<close>. They are not
  part of the sources at hand and are parameters.
\<close>

record IniAccess =
  ini_calculation :: bool
  ini_logging :: bool
  ini_directory_path :: string
  ini_file_name_header :: string
  ini_orbit_data_period :: string
  ini_clock_file_name_footer :: string
  ini_start_date :: int
  ini_end_date :: int

record library =
  open_Sp3FileReader :: "string \<Rightarrow> Sp3FileReader"
  GetOrbitClockFinalFileName :: "string \<Rightarrow> nat \<Rightarrow> string \<Rightarrow> string"
  IncrementYearDoy :: "nat \<Rightarrow> nat"

text \<open>The cast \<open>(size_t)\<close> of an \<open>int\<close>, on a 64-bit \<open>size_t\<close>.\<close>

definition size_t_of_int :: "int \<Rightarrow> nat" where
  "size_t_of_int x = nat (x mod 2 ^ 64)"

text \<open>
  The loop that reads one product file per day. Whether it ends depends on
  \<open>IncrementYearDoy\<close>; a run that never ends is \<open>None\<close>. When the clock footer is not
  the SP3 one, \<open>substr(4, 7)\<close> of a footer shorter than 4 characters throws
  \<open>std::out_of_range\<close>; the clock file name itself is computed and not used.
\<close>

partial_function (option) read_product_files ::
  "library \<Rightarrow> IniAccess \<Rightarrow> bool \<Rightarrow> nat \<Rightarrow> nat \<Rightarrow> Sp3FileReader list \<Rightarrow> (error + Sp3FileReader list) option" where
  "read_product_files lib ini_file use_sp3_for_clock end_date read_file_date sp3_file_readers =
     (if read_file_date \<le> end_date then
        (if \<not> use_sp3_for_clock \<and> length (ini_clock_file_name_footer ini_file) < 4
         then Some (Inl (OutOfRange ClockFileNameFooter))
         else read_product_files lib ini_file use_sp3_for_clock end_date
                (IncrementYearDoy lib read_file_date)
                (sp3_file_readers @
                  [open_Sp3FileReader lib (ini_directory_path ini_file @
                     GetOrbitClockFinalFileName lib (ini_file_name_header ini_file) read_file_date
                       (ini_orbit_data_period ini_file))]))
      else Some (Inr sp3_file_readers))"

definition start_after_end :: string where
  "start_after_end = ''[ERROR] GNSS satellite initialize: start_date is larger than the end date.''"

definition InitGnssSatellites :: "library \<Rightarrow> IniAccess \<Rightarrow> EpochTime \<Rightarrow> (error + GnssSatellites) option" where
  "InitGnssSatellites lib ini_file start_epoch_time =
     (let gnss_satellites = new_GnssSatellites (ini_calculation ini_file) (ini_logging ini_file)
      in if \<not> IsCalcEnabled gnss_satellites then Some (Inr gnss_satellites)
         else
           (let use_sp3_for_clock =
                  (ini_clock_file_name_footer ini_file = ini_orbit_data_period ini_file @ ''_ORB.SP3'');
                start_date = size_t_of_int (ini_start_date ini_file);
                end_date = size_t_of_int (ini_end_date ini_file);
                g = (if start_date > end_date
                     then gnss_satellites\<lparr>console := console gnss_satellites @ [start_after_end]\<rparr>
                     else gnss_satellites)
            in case read_product_files lib ini_file use_sp3_for_clock end_date start_date [] of
                 None \<Rightarrow> None
               | Some (Inl e) \<Rightarrow> Some (Inl e)
               | Some (Inr sp3_file_readers) \<Rightarrow> Some (Initialize g sp3_file_readers start_epoch_time)))"

subsection \<open>Notions used in the statements\<close>

text \<open>The buffers of satellite \<open>i\<close> after one push of the sample that the file holds at the
  manager's epoch index.\<close>

definition pushed_orbit :: "Sp3FileReader \<Rightarrow> GnssSatellites \<Rightarrow> nat \<Rightarrow> InterpolationOrbit" where
  "pushed_orbit sp3_file s i =
     PushAndPopData (sample_time_diff_s sp3_file s)
       (scale 1000 (GetSatellitePosition_km sp3_file (reference_interpolation_id s) i)) (orbit s ! i)"

definition pushed_clock :: "Sp3FileReader \<Rightarrow> GnssSatellites \<Rightarrow> nat \<Rightarrow> Interpolation" where
  "pushed_clock sp3_file s i =
     PushAndPopData (sample_time_diff_s sp3_file s)
       (GetSatelliteClockOffset sp3_file (reference_interpolation_id s) i) (clock s ! i)"

text \<open>The manager after the loop over the satellites \<open>0, \<dots>, n - 1\<close>.\<close>

definition pushed_upto :: "Sp3FileReader \<Rightarrow> nat \<Rightarrow> GnssSatellites \<Rightarrow> GnssSatellites" where
  "pushed_upto sp3_file n s =
     s\<lparr>orbit := map (\<lambda>i. if i < n then pushed_orbit sp3_file s i else orbit s ! i) [0..<length (orbit s)],
       clock := map (\<lambda>i. if i < n then pushed_clock sp3_file s i else clock s ! i) [0..<length (clock s)]\<rparr>"

text \<open>The time range \<open>GetCurrentSp3File\<close> gives a file: the day that begins at its start
  epoch.\<close>

definition in_file_range :: "Sp3FileReader \<Rightarrow> EpochTime \<Rightarrow> bool" where
  "in_file_range f t =
     (0 \<le> GetTimeWithFraction_s t - GetTimeWithFraction_s (GetStartEpochDateTime f) \<and>
      GetTimeWithFraction_s t - GetTimeWithFraction_s (GetStartEpochDateTime f) < 24 * 60 * 60)"

text \<open>A file list in the order of its start epochs.\<close>

definition ordered_by_start :: "Sp3FileReader list \<Rightarrow> bool" where
  "ordered_by_start files =
     sorted_wrt (\<lambda>f g. GetTimeWithFraction_s (GetStartEpochDateTime f)
                      \<le> GetTimeWithFraction_s (GetStartEpochDateTime g)) files"

text \<open>The time a getter answers for: the argument, or the manager's current time when the
  argument's whole seconds are 0.\<close>

definition target_time :: "GnssSatellites \<Rightarrow> EpochTime \<Rightarrow> EpochTime" where
  "target_time s time = (if GetTime_s time = 0 then current_epoch_time s else time)"

subsection \<open>Example data\<close>

text \<open>
  A daily product file with 96 epochs, 900 s apart, from the second \<open>t0\<close> on, for \<open>n_sat\<close>
  satellites; two consecutive days; the manager while \<open>Initialize\<close> seeds it from the
  first day, starting at epoch \<open>e0\<close>, after \<open>j\<close> rounds; and the manager after the ninth
  round.
\<close>

definition sp3_example :: "nat \<Rightarrow> nat \<Rightarrow> nat \<Rightarrow> Sp3FileReader" where
  "sp3_example t0 n_epoch n_sat =
     \<lparr>GetNumberOfEpoch = n_epoch, GetNumberOfSatellites = n_sat,
      GetStartEpochDateTime = \<lparr>time_s = t0, fraction_s = 0\<rparr>,
      GetEpochData = (\<lambda>i. \<lparr>time_s = t0 + 900 * i, fraction_s = 0\<rparr>),
      GetSatellitePosition_km = (\<lambda>i k. (real i, real k, 1)),
      GetSatelliteClockOffset = (\<lambda>i k. 5),
      SearchNearestEpochId = (\<lambda>t. (time_s t - t0 + 450) div 900)\<rparr>"

definition day1 :: "nat \<Rightarrow> Sp3FileReader" where
  "day1 n_sat = sp3_example 86400 96 n_sat"

definition day2 :: "nat \<Rightarrow> Sp3FileReader" where
  "day2 n_sat = sp3_example 172800 96 n_sat"

definition epoch_of_day1 :: "nat \<Rightarrow> EpochTime" where
  "epoch_of_day1 i = \<lparr>time_s = 86400 + 900 * i, fraction_s = 0\<rparr>"

definition seeding :: "nat \<Rightarrow> Sp3FileReader list \<Rightarrow> nat \<Rightarrow> nat \<Rightarrow> GnssSatellites" where
  "seeding n files e0 j =
     \<lparr>is_calc_enabled = True, is_log_enabled = True, sp3_files = files,
      number_of_calculated_gnss_satellites = n, sp3_file_id = 0,
      reference_time = epoch_of_day1 e0, reference_interpolation_id = e0 + j,
      current_epoch_time = epoch_of_day1 (e0 + 4),
      orbit = map (\<lambda>k. \<lparr>capacity = 9,
                samples = map (\<lambda>i. (900 * real i, (1000 * real (e0 + i), 1000 * real k, 1000))) [0..<j]\<rparr>) [0..<n],
      clock = replicate n \<lparr>capacity = 9,
                samples = replicate (9 - j) (- 1, - 1) @ map (\<lambda>i. (900 * real i, 5)) [0..<j]\<rparr>,
      console = []\<rparr>"

definition steady :: "nat \<Rightarrow> Sp3FileReader list \<Rightarrow> nat \<Rightarrow> GnssSatellites" where
  "steady n files e0 = seeding n files e0 9"

definition reversed_dates :: IniAccess where
  "reversed_dates =
     \<lparr>ini_calculation = True, ini_logging = True, ini_directory_path = ''./sp3/'',
      ini_file_name_header = ''IGS0OPSFIN'', ini_orbit_data_period = ''15M'',
      ini_clock_file_name_footer = ''15M_ORB.SP3'', ini_start_date = 2023002, ini_end_date = 2023001\<rparr>"

text \<open>The managers that \<open>Initialize\<close> leaves for two, 32 and 33 satellites, at several
  start epochs, and what \<open>Update\<close> makes of some of them.\<close>

definition small_window :: GnssSatellites where
  "small_window = steady 2 [day1 2] 0"

definition later_window :: GnssSatellites where
  "later_window = steady 2 [day1 2] 5"



definition gps_window :: GnssSatellites where
  "gps_window = steady 32 [day1 32, day2 32] 0"

definition gps_window_updated :: GnssSatellites where
  "gps_window_updated =
     pushed_upto (day1 32) 32 (gps_window\<lparr>current_epoch_time := epoch_of_day1 5\<rparr>)
       \<lparr>reference_interpolation_id := 10\<rparr>"

definition wide_window :: GnssSatellites where
  "wide_window = steady 33 [day1 33, day2 33] 0"

definition wide_window_updated :: GnssSatellites where
  "wide_window_updated =
     pushed_upto (day1 33) 32 (wide_window\<lparr>current_epoch_time := epoch_of_day1 5\<rparr>)
       \<lparr>reference_interpolation_id := 10\<rparr>"



definition single_day_window :: GnssSatellites where
  "single_day_window = steady 32 [day1 32] 86"

text \<open>A file list of two days, and a start time before the first file.\<close>

definition two_days :: "Sp3FileReader list" where
  "two_days = [day1 2, day2 2]"

definition before_day1 :: EpochTime where
  "before_day1 = \<lparr>time_s = 5, fraction_s = 0\<rparr>"

text \<open>A query time of half a second, and a stand-in for \<open>CalcPositionWithTrigonometric\<close>
  in examples: the newest position of the buffer.\<close>

definition half_past_zero :: EpochTime where
  "half_past_zero = \<lparr>time_s = 0, fraction_s = 1 / 2\<rparr>"

definition newest_position :: "InterpolationOrbit \<Rightarrow> real \<Rightarrow> real \<Rightarrow> vec3" where
  "newest_position b x w = snd (last (samples b))"

section \<open>Properties\<close>

subsection \<open>The loop over the satellites\<close>

lemma for_loop_append:
  "for_loop (xs @ ys) body s =
     (case for_loop xs body s of Inl e \<Rightarrow> Inl e | Inr s' \<Rightarrow> for_loop ys body s')"
  by (induction xs arbitrary: s) (auto split: sum.splits)

lemma pushed_upto_0: "pushed_upto f 0 s = s"
  by (simp add: pushed_upto_def map_nth)

lemma push_sample_pushed_upto:
  assumes "n < length (orbit s)" "n < length (clock s)"
  shows "push_sample f n (pushed_upto f n s) = Inr (pushed_upto f (Suc n) s)"
proof -
  have o: "(map (\<lambda>i. if i < n then pushed_orbit f s i else orbit s ! i) [0..<length (orbit s)])
             [n := pushed_orbit f s n]
           = map (\<lambda>i. if i < Suc n then pushed_orbit f s i else orbit s ! i) [0..<length (orbit s)]"
    using assms by (intro nth_equalityI) (auto simp: nth_list_update less_Suc_eq)
  have c: "(map (\<lambda>i. if i < n then pushed_clock f s i else clock s ! i) [0..<length (clock s)])
             [n := pushed_clock f s n]
           = map (\<lambda>i. if i < Suc n then pushed_clock f s i else clock s ! i) [0..<length (clock s)]"
    using assms by (intro nth_equalityI) (auto simp: nth_list_update less_Suc_eq)
  show ?thesis
    using assms o c
    by (simp add: push_sample_def pushed_upto_def sample_time_diff_s_def pushed_orbit_def pushed_clock_def)
qed

lemma for_loop_push_sample:
  "n \<le> length (orbit s) \<Longrightarrow> n \<le> length (clock s) \<Longrightarrow>
   for_loop [0..<n] (push_sample f) s = Inr (pushed_upto f n s)"
proof (induction n)
  case 0
  then show ?case by (simp add: pushed_upto_0)
next
  case (Suc n)
  then show ?case
    by (simp add: for_loop_append push_sample_pushed_upto)
qed

lemma pushed_upto_fields:
  "is_calc_enabled (pushed_upto f n s) = is_calc_enabled s"
  "sp3_files (pushed_upto f n s) = sp3_files s"
  "number_of_calculated_gnss_satellites (pushed_upto f n s) = number_of_calculated_gnss_satellites s"
  "sp3_file_id (pushed_upto f n s) = sp3_file_id s"
  "reference_time (pushed_upto f n s) = reference_time s"
  "reference_interpolation_id (pushed_upto f n s) = reference_interpolation_id s"
  "current_epoch_time (pushed_upto f n s) = current_epoch_time s"
  "console (pushed_upto f n s) = console s"
  "length (orbit (pushed_upto f n s)) = length (orbit s)"
  "length (clock (pushed_upto f n s)) = length (clock s)"
  by (simp_all add: pushed_upto_def)

lemma pushed_upto_nth:
  "i < length (orbit s) \<Longrightarrow>
     orbit (pushed_upto f n s) ! i = (if i < n then pushed_orbit f s i else orbit s ! i)"
  "i < length (clock s) \<Longrightarrow>
     clock (pushed_upto f n s) ! i = (if i < n then pushed_clock f s i else clock s ! i)"
  by (simp_all add: pushed_upto_def)

lemma pushed_orbit_current [simp]:
  "pushed_orbit f (s\<lparr>current_epoch_time := t\<rparr>) i = pushed_orbit f s i"
  by (simp add: pushed_orbit_def sample_time_diff_s_def)

lemma pushed_clock_current [simp]:
  "pushed_clock f (s\<lparr>current_epoch_time := t\<rparr>) i = pushed_clock f s i"
  by (simp add: pushed_clock_def sample_time_diff_s_def)


lemma push_sample_Inr:
  "push_sample f n s = Inr s' \<Longrightarrow> n < length (orbit s) \<and> n < length (clock s)"
  by (auto simp: push_sample_def Let_def split: if_splits)

lemma for_loop_push_sample_Inr:
  "for_loop [0..<n] (push_sample f) s = Inr s' \<Longrightarrow> n \<le> length (orbit s) \<and> n \<le> length (clock s)"
proof (induction n arbitrary: s')
  case 0
  then show ?case by simp
next
  case (Suc n)
  from Suc.prems obtain s'' where
    a: "for_loop [0..<n] (push_sample f) s = Inr s''" and b: "push_sample f n s'' = Inr s'"
    by (auto simp: for_loop_append split: sum.splits)
  from Suc.IH [OF a] have le: "n \<le> length (orbit s)" "n \<le> length (clock s)" by simp_all
  with a have "s'' = pushed_upto f n s" by (simp add: for_loop_push_sample)
  with push_sample_Inr [OF b] show ?case by (simp add: pushed_upto_fields)
qed

lemma for_loop_push_sample_short:
  assumes "length (orbit s) < n" "length (orbit s) \<le> length (clock s)"
  shows "for_loop [0..<n] (push_sample f) s = Inl (OutOfRange Orbit)"
proof -
  let ?m = "length (orbit s)"
  have "[0..<n] = [0..<?m] @ ?m # [Suc ?m..<n]"
    using assms(1) by (metis less_imp_le_nat upt_add_eq_append le0 upt_conv_Cons le_add_diff_inverse plus_nat.add_0)
  moreover have "for_loop [0..<?m] (push_sample f) s = Inr (pushed_upto f ?m s)"
    using assms(2) by (simp add: for_loop_push_sample)
  moreover have "push_sample f ?m (pushed_upto f ?m s) = Inl (OutOfRange Orbit)"
    by (simp add: push_sample_def pushed_upto_fields Let_def)
  ultimately show ?thesis
    by (simp add: for_loop_append)
qed


subsection \<open>The end of a file, and a seeding round\<close>

lemma file_update_advance:
  "Suc (reference_interpolation_id s) < GetNumberOfEpoch f \<Longrightarrow>
   file_update f s = Inr (f, s\<lparr>reference_interpolation_id := Suc (reference_interpolation_id s)\<rparr>)"
  by (simp add: file_update_def)


lemma file_update_over:
  "GetNumberOfEpoch f \<le> Suc (reference_interpolation_id s) \<Longrightarrow>
   length (sp3_files s) \<le> Suc (sp3_file_id s) \<Longrightarrow>
   file_update f s = Inl (OutOfRange Sp3Files)"
  by (simp add: file_update_def)

lemma file_update_Inr:
  "file_update f s = Inr (f', s') \<Longrightarrow>
     s' = s\<lparr>reference_interpolation_id := Suc (reference_interpolation_id s)\<rparr> \<or>
     s' = s\<lparr>reference_interpolation_id := 0, sp3_file_id := Suc (sp3_file_id s)\<rparr>"
  by (auto simp: file_update_def Let_def split: if_splits)

lemma file_update_Inr_fields:
  assumes "file_update f s = Inr (f', s')"
  shows "orbit s' = orbit s" "clock s' = clock s" "reference_time s' = reference_time s"
    "current_epoch_time s' = current_epoch_time s"
    "reference_interpolation_id s' \<le> Suc (reference_interpolation_id s)"
    "(reference_interpolation_id s', sp3_file_id s') \<noteq> (reference_interpolation_id s, sp3_file_id s)"
  using file_update_Inr [OF assms] by auto

lemma seed_step_pushed:
  "number_of_calculated_gnss_satellites s \<le> length (orbit s) \<Longrightarrow>
   number_of_calculated_gnss_satellites s \<le> length (clock s) \<Longrightarrow>
   seed_step i (f, s) = file_update f (pushed_upto f (number_of_calculated_gnss_satellites s) s)"
  by (simp add: seed_step_def for_loop_push_sample)





subsection \<open>The cases of Update\<close>

lemma Update_not_triggered:
  "IsCalcEnabled s \<Longrightarrow> sp3_file_id s < length (sp3_files s) \<Longrightarrow> orbit s \<noteq> [] \<Longrightarrow>
   4 < length (GetTimeList (orbit s ! 0)) \<Longrightarrow> \<not> refill_triggered s t \<Longrightarrow>
   Update s t = Inr (s\<lparr>current_epoch_time := t\<rparr>)"
  by (simp add: Update_def refill_triggered_def Let_def)

lemma Update_triggered:
  "IsCalcEnabled s \<Longrightarrow> sp3_file_id s < length (sp3_files s) \<Longrightarrow> orbit s \<noteq> [] \<Longrightarrow>
   4 < length (GetTimeList (orbit s ! 0)) \<Longrightarrow> refill_triggered s t \<Longrightarrow>
   Update s t =
     (case for_loop [0..<32] (push_sample (sp3_files s ! sp3_file_id s)) (s\<lparr>current_epoch_time := t\<rparr>) of
        Inl e \<Rightarrow> Inl e
      | Inr s' \<Rightarrow> map_sum id snd (file_update (sp3_files s ! sp3_file_id s) s'))"
  by (simp add: Update_def refill_triggered_def Let_def)

lemma Update_triggered_32:
  assumes "IsCalcEnabled s" "sp3_file_id s < length (sp3_files s)"
    "4 < length (GetTimeList (orbit s ! 0))" "refill_triggered s t"
    "32 \<le> length (orbit s)" "32 \<le> length (clock s)"
  shows "Update s t = map_sum id snd (file_update (sp3_files s ! sp3_file_id s)
            (pushed_upto (sp3_files s ! sp3_file_id s) 32 (s\<lparr>current_epoch_time := t\<rparr>)))"
proof -
  have "orbit s \<noteq> []" using assms(5) by auto
  then show ?thesis
    using assms by (simp add: Update_triggered for_loop_push_sample)
qed

lemma Update_Inr_cases:
  assumes "Update s t = Inr s'"
  shows "(\<not> IsCalcEnabled s \<and> s' = s) \<or>
         (IsCalcEnabled s \<and> \<not> refill_triggered s t \<and> s' = s\<lparr>current_epoch_time := t\<rparr>) \<or>
         (IsCalcEnabled s \<and> refill_triggered s t \<and> 32 \<le> length (orbit s) \<and> 32 \<le> length (clock s) \<and>
          (\<exists>f'. file_update (sp3_files s ! sp3_file_id s)
                  (pushed_upto (sp3_files s ! sp3_file_id s) 32 (s\<lparr>current_epoch_time := t\<rparr>)) = Inr (f', s')))"
proof (cases "IsCalcEnabled s")
  case False
  with assms show ?thesis by (simp add: Update_def)
next
  case en: True
  from assms en have pre: "sp3_file_id s < length (sp3_files s)" "orbit s \<noteq> []"
      "4 < length (GetTimeList (orbit s ! 0))"
    by (auto simp: Update_def Let_def split: if_splits)
  show ?thesis
  proof (cases "refill_triggered s t")
    case False
    with assms en pre show ?thesis by (simp add: Update_not_triggered)
  next
    case tr: True
    let ?f = "sp3_files s ! sp3_file_id s"
    let ?s1 = "s\<lparr>current_epoch_time := t\<rparr>"
    from assms en pre tr obtain s2 where
      loop: "for_loop [0..<32] (push_sample ?f) ?s1 = Inr s2"
      and fu: "map_sum id snd (file_update ?f s2) = Inr s'"
      by (auto simp: Update_triggered split: sum.splits)
    from for_loop_push_sample_Inr [OF loop] have le: "32 \<le> length (orbit s)" "32 \<le> length (clock s)"
      by simp_all
    with loop have s2: "s2 = pushed_upto ?f 32 ?s1" by (simp add: for_loop_push_sample)
    from fu obtain f' where "file_update ?f s2 = Inr (f', s')"
      by (cases "file_update ?f s2") auto
    with s2 le en tr show ?thesis by auto
  qed
qed


subsection \<open>The search for the first file\<close>

lemma search_sp3_file_first:
  assumes "i < length fs" "in_file_range (fs ! i) t"
    "\<forall>j<i. 24 * 60 * 60 \<le> GetTimeWithFraction_s t - GetTimeWithFraction_s (GetStartEpochDateTime (fs ! j))"
  shows "search_sp3_file fs k t = Some (k + i)"
  using assms
proof (induction fs arbitrary: i k)
  case Nil
  then show ?case by simp
next
  case (Cons f fs)
  show ?case
  proof (cases i)
    case 0
    with Cons.prems show ?thesis by (simp add: in_file_range_def)
  next
    case (Suc i')
    from Cons.prems(3) Suc
    have hd: "24 * 60 * 60 \<le> GetTimeWithFraction_s t - GetTimeWithFraction_s (GetStartEpochDateTime f)"
      by auto
    have tl: "\<forall>j<i'. 24 * 60 * 60 \<le> GetTimeWithFraction_s t - GetTimeWithFraction_s (GetStartEpochDateTime (fs ! j))"
      using Cons.prems(3) Suc by auto
    from Cons.IH [of i' "Suc k"] Cons.prems(1,2) Suc tl
    have "search_sp3_file fs (Suc k) t = Some (Suc k + i')" by simp
    with hd Suc show ?thesis by simp
  qed
qed

lemma search_sp3_file_none:
  "\<forall>j<length fs. \<not> in_file_range (fs ! j) t \<Longrightarrow> search_sp3_file fs k t = None"
proof (induction fs arbitrary: k)
  case Nil
  then show ?case by simp
next
  case (Cons f fs)
  from Cons.prems have "\<not> in_file_range f t" and "\<forall>j<length fs. \<not> in_file_range (fs ! j) t"
    by auto
  with Cons.IH [of "Suc k"] show ?case
    by (auto simp: in_file_range_def Let_def)
qed

subsection \<open>The example data\<close>

lemma day1_simps:
  "GetNumberOfEpoch (day1 n) = 96" "GetNumberOfSatellites (day1 n) = n"
  "GetStartEpochDateTime (day1 n) = epoch_of_day1 0"
  "GetEpochData (day1 n) i = epoch_of_day1 i"
  "GetSatellitePosition_km (day1 n) i k = (real i, real k, 1)"
  "GetSatelliteClockOffset (day1 n) i k = 5"
  "SearchNearestEpochId (day1 n) t = (time_s t - 86400 + 450) div 900"
  by (simp_all add: day1_def sp3_example_def epoch_of_day1_def)

lemma day2_start: "GetStartEpochDateTime (day2 n) = epoch_of_day1 96"
  by (simp add: day2_def sp3_example_def epoch_of_day1_def)

lemma in_range_day1: "in_file_range (day1 n) (epoch_of_day1 e) = (e < 96)"
  by (simp add: in_file_range_def day1_simps GetTimeWithFraction_s_def epoch_of_day1_def)

lemma in_range_day2: "in_file_range (day2 n) (epoch_of_day1 e) = (96 \<le> e \<and> e < 192)"
  by (auto simp: in_file_range_def day2_start GetTimeWithFraction_s_def epoch_of_day1_def)

lemma ordered_two_days: "ordered_by_start two_days"
  by (simp add: ordered_by_start_def two_days_def day1_simps day2_start
        GetTimeWithFraction_s_def epoch_of_day1_def)

lemma time_diff_day1:
  "GetTimeWithFraction_s (epoch_of_day1 (e0 + j)) - GetTimeWithFraction_s (epoch_of_day1 e0) = 900 * real j"
  by (simp add: GetTimeWithFraction_s_def epoch_of_day1_def)

lemma upt_9: "[0..<9] = [0, 1, 2, 3, 4, 5, 6, 7, 8]"
  by (simp add: upt_conv_Cons)

lemma pushed_seeding:
  assumes "j < 9"
  shows "pushed_upto (day1 n) n (seeding n files e0 j)
           \<lparr>reference_interpolation_id := Suc (e0 + j)\<rparr> = seeding n files e0 (Suc j)"
proof -
  have o: "map (\<lambda>k. if k < n then pushed_orbit (day1 n) (seeding n files e0 j) k
                      else orbit (seeding n files e0 j) ! k) [0..<n]
           = orbit (seeding n files e0 (Suc j))"
    using assms
    by (intro nth_equalityI)
       (simp_all add: seeding_def pushed_orbit_def PushAndPopData_def sample_time_diff_s_def
          day1_simps time_diff_day1 scale_def)
  have "9 - j = Suc (8 - j)" using assms by simp
  then have tl: "tl (replicate (9 - j) (- 1 :: real, - 1 :: real)) = replicate (8 - j) (- 1, - 1)"
    by simp
  have c: "map (\<lambda>k. if k < n then pushed_clock (day1 n) (seeding n files e0 j) k
                      else clock (seeding n files e0 j) ! k) [0..<n]
           = clock (seeding n files e0 (Suc j))"
    using assms tl
    by (intro nth_equalityI)
       (simp_all add: seeding_def pushed_clock_def PushAndPopData_def sample_time_diff_s_def
          day1_simps time_diff_day1)
  have lo: "length (orbit (seeding n files e0 j)) = n" and lc: "length (clock (seeding n files e0 j)) = n"
    by (simp_all add: seeding_def)
  show ?thesis
    unfolding pushed_upto_def lo lc o c
    by (simp add: seeding_def)
qed

lemma seed_step_seeding:
  assumes "j < 9" "Suc (e0 + j) < 96"
  shows "seed_step i (day1 n, seeding n files e0 j) = Inr (day1 n, seeding n files e0 (Suc j))"
proof -
  have "seed_step i (day1 n, seeding n files e0 j)
        = file_update (day1 n) (pushed_upto (day1 n) n (seeding n files e0 j))"
    using seed_step_pushed [of "seeding n files e0 j" i "day1 n"] by (simp add: seeding_def)
  also have "\<dots> = Inr (day1 n, pushed_upto (day1 n) n (seeding n files e0 j)
                       \<lparr>reference_interpolation_id := Suc (e0 + j)\<rparr>)"
    using assms file_update_advance [of "pushed_upto (day1 n) n (seeding n files e0 j)" "day1 n"]
    by (simp add: pushed_upto_fields day1_simps seeding_def)
  finally show ?thesis using assms by (simp add: pushed_seeding)
qed

lemma seed_step_seeding_over:
  assumes "j < 9" "Suc (e0 + j) = 96"
  shows "seed_step i (day1 n, seeding n [day1 m] e0 j) = Inl (OutOfRange Sp3Files)"
proof -
  have "seed_step i (day1 n, seeding n [day1 m] e0 j)
        = file_update (day1 n) (pushed_upto (day1 n) n (seeding n [day1 m] e0 j))"
    using seed_step_pushed [of "seeding n [day1 m] e0 j" i "day1 n"] by (simp add: seeding_def)
  also have "\<dots> = Inl (OutOfRange Sp3Files)"
    using assms file_update_over [of "day1 n" "pushed_upto (day1 n) n (seeding n [day1 m] e0 j)"]
    by (simp add: pushed_upto_fields day1_simps seeding_def)
  finally show ?thesis .
qed

lemma for_loop_seeding:
  "j + m \<le> 9 \<Longrightarrow> e0 + j + m < 96 \<Longrightarrow>
   for_loop [j..<j + m] seed_step (day1 n, seeding n files e0 j)
     = Inr (day1 n, seeding n files e0 (j + m))"
proof (induction m)
  case 0
  then show ?case by simp
next
  case (Suc m)
  then show ?case
    by (simp add: for_loop_append seed_step_seeding)
qed

lemma search_day1:
  "e < 96 \<Longrightarrow> search_sp3_file (day1 n # rest) 0 (epoch_of_day1 e) = Some 0"
  by (simp add: day1_simps GetTimeWithFraction_s_def epoch_of_day1_def)

lemma seeding_0:
  "e0 + 4 < 96 \<Longrightarrow>
   Initialize (new_GnssSatellites True True) (day1 n # rest) (epoch_of_day1 (e0 + 4))
    = map_sum id snd (for_loop [0..<9] seed_step (day1 n, seeding n (day1 n # rest) e0 0))"
proof -
  assume e: "e0 + 4 < 96"
  have near: "(time_s (epoch_of_day1 (e0 + 4)) - 86400 + 450) div 900 = e0 + 4"
    by (simp add: epoch_of_day1_def)
  have "replicate n (new_InterpolationOrbit 9) = map (\<lambda>k. \<lparr>capacity = 9, samples = []\<rparr>) [0..<n]"
    by (simp add: new_InterpolationOrbit_def map_replicate_const)
  moreover have "new_Interpolation (replicate 9 (- 1)) (replicate 9 (- 1))
          = \<lparr>capacity = 9, samples = replicate 9 (- 1, - 1)\<rparr>"
    by (simp add: new_Interpolation_def zip_replicate)
  ultimately show ?thesis
    using e
    by (simp add: Initialize_def seed_buffers_def GetCurrentSp3File_def search_day1 day1_simps near
          kNumberOfInterpolation_def new_GnssSatellites_def seeding_def Let_def
          del: search_sp3_file.simps)
qed

lemma Initialize_day1:
  assumes "e0 + 9 < 96"
  shows "Initialize (new_GnssSatellites True True) (day1 n # rest) (epoch_of_day1 (e0 + 4))
          = Inr (seeding n (day1 n # rest) e0 9)"
  using assms for_loop_seeding [of 0 9 e0 n "day1 n # rest"]
  by (simp add: seeding_0)

lemma steady_fields:
  "IsCalcEnabled (steady n files e0)"
  "sp3_files (steady n files e0) = files"
  "number_of_calculated_gnss_satellites (steady n files e0) = n"
  "sp3_file_id (steady n files e0) = 0"
  "reference_time (steady n files e0) = epoch_of_day1 e0"
  "reference_interpolation_id (steady n files e0) = e0 + 9"
  "current_epoch_time (steady n files e0) = epoch_of_day1 (e0 + 4)"
  "length (orbit (steady n files e0)) = n"
  "length (clock (steady n files e0)) = n"
  "console (steady n files e0) = []"
  by (simp_all add: steady_def seeding_def IsCalcEnabled_def)

lemma steady_time_list:
  "0 < n \<Longrightarrow> GetTimeList (orbit (steady n files e0) ! 0) = [0, 900, 1800, 2700, 3600, 4500, 5400, 6300, 7200]"
  by (simp add: steady_def seeding_def GetTimeList_def upt_9 del: upt_Suc)

lemma steady_orbit_nth:
  "k < n \<Longrightarrow> orbit (steady n files e0) ! k =
     \<lparr>capacity = 9, samples = map (\<lambda>i. (900 * real i, (1000 * real (e0 + i), 1000 * real k, 1000))) [0..<9]\<rparr>"
  by (simp add: steady_def seeding_def del: upt_Suc)

lemma steady_clock_nth:
  "k < n \<Longrightarrow> clock (steady n files e0) ! k =
     \<lparr>capacity = 9, samples = map (\<lambda>i. (900 * real i, 5)) [0..<9]\<rparr>"
  by (simp add: steady_def seeding_def del: upt_Suc)

lemma steady_triggered:
  "0 < n \<Longrightarrow> refill_triggered (steady n files e0) (epoch_of_day1 e) = (e0 + 4 < e)"
proof -
  have "(3600 < 900 * real e - 900 * real e0) = (real (e0 + 4) < real e)"
    by auto
  also have "\<dots> = (e0 + 4 < e)"
    by (rule of_nat_less_iff)
  finally show ?thesis if "0 < n"
    using that
    by (simp add: refill_triggered_def steady_time_list steady_fields GetTimeWithFraction_s_def
          epoch_of_day1_def)
qed

lemma steady_orbit_nonempty: "0 < n \<Longrightarrow> orbit (steady n files e0) \<noteq> []"
  using steady_fields(8) [of n files e0] by auto

lemma Update_steady_advance:
  assumes "32 \<le> n" "e0 + 4 < e" "e0 + 10 < 96"
  shows "Update (steady n (day1 m # rest) e0) (epoch_of_day1 e) =
     Inr (pushed_upto (day1 m) 32 (steady n (day1 m # rest) e0\<lparr>current_epoch_time := epoch_of_day1 e\<rparr>)
           \<lparr>reference_interpolation_id := e0 + 10\<rparr>)"
proof -
  let ?s = "steady n (day1 m # rest) e0"
  let ?p = "pushed_upto (day1 m) 32 (?s\<lparr>current_epoch_time := epoch_of_day1 e\<rparr>)"
  have "Update ?s (epoch_of_day1 e) = map_sum id snd (file_update (day1 m) ?p)"
    using assms Update_triggered_32 [of ?s "epoch_of_day1 e"]
    by (simp add: steady_fields steady_time_list steady_triggered)
  moreover have "file_update (day1 m) ?p = Inr (day1 m, ?p\<lparr>reference_interpolation_id := Suc (e0 + 9)\<rparr>)"
    using assms file_update_advance [of ?p "day1 m"]
    by (simp add: pushed_upto_fields steady_fields day1_simps)
  ultimately show ?thesis by simp
qed


lemma Update_steady_over:
  assumes "32 \<le> n" "e0 + 4 < e" "e0 + 10 = 96"
  shows "Update (steady n [day1 m] e0) (epoch_of_day1 e) = Inl (OutOfRange Sp3Files)"
proof -
  let ?s = "steady n [day1 m] e0"
  let ?p = "pushed_upto (day1 m) 32 (?s\<lparr>current_epoch_time := epoch_of_day1 e\<rparr>)"
  have "Update ?s (epoch_of_day1 e) = map_sum id snd (file_update (day1 m) ?p)"
    using assms Update_triggered_32 [of ?s "epoch_of_day1 e"]
    by (simp add: steady_fields steady_time_list steady_triggered)
  moreover have "file_update (day1 m) ?p = Inl (OutOfRange Sp3Files)"
    using assms file_update_over [of "day1 m" ?p]
    by (simp add: pushed_upto_fields steady_fields day1_simps)
  ultimately show ?thesis by simp
qed

lemma Update_steady_short:
  assumes "0 < n" "n < 32" "e0 + 4 < e"
  shows "Update (steady n (f # rest) e0) (epoch_of_day1 e) = Inl (OutOfRange Orbit)"
proof -
  let ?s = "steady n (f # rest) e0"
  have "for_loop [0..<32] (push_sample f) (?s\<lparr>current_epoch_time := epoch_of_day1 e\<rparr>)
          = Inl (OutOfRange Orbit)"
    using assms by (intro for_loop_push_sample_short) (simp_all add: steady_fields)
  then show ?thesis
    using assms Update_triggered [of ?s "epoch_of_day1 e"]
    by (simp add: steady_fields steady_time_list steady_triggered steady_orbit_nonempty)
qed

lemma Initialize_small_window:
  "Initialize (new_GnssSatellites True True) [day1 2] (epoch_of_day1 4) = Inr small_window"
  using Initialize_day1 [of 0 2 "[]"] by (simp add: small_window_def steady_def)


lemma small_window_fields:
  "number_of_calculated_gnss_satellites small_window = 2"
  "reference_time small_window = epoch_of_day1 0"
  "current_epoch_time small_window = epoch_of_day1 4"
  "length (orbit small_window) = 2"
  "length (clock small_window) = 2"
  "clock small_window ! 0 = \<lparr>capacity = 9, samples = map (\<lambda>i. (900 * real i, 5)) [0..<9]\<rparr>"
  by (simp_all add: small_window_def steady_fields steady_clock_nth del: upt_Suc)

lemma lagrange_node_4:
  "CalcPolynomial \<lparr>capacity = 9, samples = map (\<lambda>i. (900 * real i, 5)) [0..<9]\<rparr> 3600 = 5"
  by (simp add: CalcPolynomial_def lagrange_basis_def GetTimeList_def upt_9)

lemma GetClock_small_window_current:
  "GetClock_s small_window 0 (epoch_of_day1 4) = Inr (5 / 1000000)"
  by (simp add: GetClock_s_def small_window_fields lagrange_node_4
        GetTime_s_def GetTimeWithFraction_s_def epoch_of_day1_def del: upt_Suc)

lemma gps_window_fields:
  "IsCalcEnabled gps_window"
  "sp3_file_id gps_window < length (sp3_files gps_window)"
  "orbit gps_window \<noteq> []"
  "4 < length (GetTimeList (orbit gps_window ! 0))"
  "GetTimeList (orbit gps_window ! 0) ! 4 = 3600"
  "reference_time gps_window = epoch_of_day1 0"
  "reference_interpolation_id gps_window = 9"
  "length (orbit gps_window) = 32"
  "length (clock gps_window) = 32"
  by (simp_all add: gps_window_def steady_fields steady_time_list steady_orbit_nonempty)

lemma gps_window_offsets:
  "GetTimeWithFraction_s (epoch_of_day1 4) - GetTimeWithFraction_s (reference_time gps_window) = 3600"
  "GetTimeWithFraction_s (epoch_of_day1 5) - GetTimeWithFraction_s (reference_time gps_window) = 4500"
  by (simp_all add: gps_window_fields GetTimeWithFraction_s_def epoch_of_day1_def)

lemma gps_window_triggered:
  "\<not> refill_triggered gps_window (epoch_of_day1 4)" "refill_triggered gps_window (epoch_of_day1 5)"
  by (simp_all add: gps_window_def steady_triggered)

lemma Update_gps_window:
  "Update gps_window (epoch_of_day1 5) = Inr gps_window_updated"
  using Update_steady_advance [of 32 0 5 32 "[day2 32]"]
  by (simp add: gps_window_def gps_window_updated_def)



section \<open>The claims\<close>

subsection \<open>C1: satellite ids from the tracked count on\<close>

text \<open>
  C1 says that every satellite id greater than or equal to the tracked count gets the
  zero vector and the clock offset 0. The guard of both getters is
  \<open>gnss_satellite_id > number_of_calculated_gnss_satellites_\<close>: the id equal to the count
  passes it. With two satellites tracked by \<open>Initialize\<close> and a query time inside the
  window, the id 2 reaches \<open>orbit_[2]\<close> and \<open>clock_[2]\<close>, outside both vectors, while the
  id 3 gets the two sentinels.
\<close>

theorem id_equal_to_count_reads_past_the_buffers:
  "Initialize (new_GnssSatellites True True) [day1 2] (epoch_of_day1 4) = Inr small_window \<and>
   number_of_calculated_gnss_satellites small_window = 2 \<and>
   GetPosition_ecef_m trig small_window 2 (epoch_of_day1 4) = Inl (OutOfRange Orbit) \<and>
   GetClock_s small_window 2 (epoch_of_day1 4) = Inl (OutOfRange Clock) \<and>
   GetPosition_ecef_m trig small_window 3 (epoch_of_day1 4) = Inr zero_vector \<and>
   GetClock_s small_window 3 (epoch_of_day1 4) = Inr 0"
proof -
  have "GetPosition_ecef_m trig small_window 2 (epoch_of_day1 4) = Inl (OutOfRange Orbit)"
    "GetClock_s small_window 2 (epoch_of_day1 4) = Inl (OutOfRange Clock)"
    "GetPosition_ecef_m trig small_window 3 (epoch_of_day1 4) = Inr zero_vector"
    "GetClock_s small_window 3 (epoch_of_day1 4) = Inr 0"
    by (simp_all add: GetPosition_ecef_m_def GetClock_s_def small_window_fields
          GetTime_s_def GetTimeWithFraction_s_def epoch_of_day1_def)
  with Initialize_small_window small_window_fields(1) show ?thesis by blast
qed

subsection \<open>C2: which buffers a refill pushes into\<close>

text \<open>
  C2 says that a triggered refill pushes one sample into the buffers of every tracked
  satellite and of no other. The loop of \<open>Update\<close> runs over the indices 0 to 31, whatever
  the tracked count is (the loop of \<open>Initialize\<close> runs to the count). With 33 satellites
  tracked, a triggered \<open>Update\<close> pushes the epoch at offset 8100 s into the buffers of
  satellite 31 and leaves those of the tracked satellite 32 as they were, newest offset
  7200 s; with two satellites tracked, it indexes \<open>orbit_\<close> outside the vector.
\<close>

theorem update_pushes_for_32_satellites:
  "Initialize (new_GnssSatellites True True) [day1 33, day2 33] (epoch_of_day1 4) = Inr wide_window \<and>
   number_of_calculated_gnss_satellites wide_window = 33 \<and>
   Update wide_window (epoch_of_day1 5) = Inr wide_window_updated \<and>
   orbit wide_window_updated ! 31 = pushed_orbit (day1 33) wide_window 31 \<and>
   clock wide_window_updated ! 31 = pushed_clock (day1 33) wide_window 31 \<and>
   last (GetTimeList (orbit wide_window_updated ! 31)) = 8100 \<and>
   orbit wide_window_updated ! 32 = orbit wide_window ! 32 \<and>
   clock wide_window_updated ! 32 = clock wide_window ! 32 \<and>
   last (GetTimeList (orbit wide_window_updated ! 32)) = 7200 \<and>
   Initialize (new_GnssSatellites True True) [day1 2] (epoch_of_day1 4) = Inr small_window \<and>
   Update small_window (epoch_of_day1 5) = Inl (OutOfRange Orbit)"
proof -
  have i: "Initialize (new_GnssSatellites True True) [day1 33, day2 33] (epoch_of_day1 4) = Inr wide_window"
    using Initialize_day1 [of 0 33 "[day2 33]"] by (simp add: wide_window_def steady_def)
  have u: "Update wide_window (epoch_of_day1 5) = Inr wide_window_updated"
    using Update_steady_advance [of 33 0 5 33 "[day2 33]"]
    by (simp add: wide_window_def wide_window_updated_def)
  have l: "length (orbit wide_window) = 33" "length (clock wide_window) = 33"
    "number_of_calculated_gnss_satellites wide_window = 33"
    by (simp_all add: wide_window_def steady_fields)
  have o31: "orbit wide_window_updated ! 31 = pushed_orbit (day1 33) wide_window 31"
    and c31: "clock wide_window_updated ! 31 = pushed_clock (day1 33) wide_window 31"
    and o32: "orbit wide_window_updated ! 32 = orbit wide_window ! 32"
    and c32: "clock wide_window_updated ! 32 = clock wide_window ! 32"
    by (simp_all add: wide_window_updated_def pushed_upto_nth l)
  have t31: "last (GetTimeList (orbit wide_window_updated ! 31)) = 8100"
    unfolding o31
    by (simp add: pushed_orbit_def GetTimeList_def PushAndPopData_def sample_time_diff_s_def
          wide_window_def steady_fields day1_simps GetTimeWithFraction_s_def epoch_of_day1_def)
  have t32: "last (GetTimeList (orbit wide_window_updated ! 32)) = 7200"
    unfolding o32
    by (simp add: wide_window_def steady_orbit_nth GetTimeList_def upt_9 del: upt_Suc)
  have s: "Update small_window (epoch_of_day1 5) = Inl (OutOfRange Orbit)"
    using Update_steady_short [of 2 0 5 "day1 2" "[]"] by (simp add: small_window_def)
  from i u l(3) o31 c31 t31 o32 c32 t32 Initialize_small_window s show ?thesis
    by blast
qed

subsection \<open>C3: when Update refills\<close>

text \<open>
  C3. With the calculation enabled, and the reads of \<open>Update\<close> before its test inside
  their vectors, \<open>Update\<close> returns the manager as it was but for the current time (no
  push) exactly when the offset of the current time from the reference time does not
  exceed the time-offset at index 4 of the orbit buffer of satellite 0; and when the
  offset exceeds it and \<open>Update\<close> returns, the orbit and clock buffers of the satellites
  0 to 31 are the old ones after one push of the file's sample at the epoch index.
\<close>

theorem refill_iff_past_middle:
  assumes "IsCalcEnabled s" "sp3_file_id s < length (sp3_files s)" "orbit s \<noteq> []"
    "4 < length (GetTimeList (orbit s ! 0))"
  shows "(Update s t = Inr (s\<lparr>current_epoch_time := t\<rparr>))
           = (\<not> GetTimeWithFraction_s t - GetTimeWithFraction_s (reference_time s)
                  > GetTimeList (orbit s ! 0) ! 4)
         \<and> (\<forall>s'. Update s t = Inr s' \<and>
                GetTimeWithFraction_s t - GetTimeWithFraction_s (reference_time s)
                  > GetTimeList (orbit s ! 0) ! 4 \<longrightarrow>
                (\<forall>i<32. orbit s' ! i = pushed_orbit (sp3_files s ! sp3_file_id s) s i \<and>
                         clock s' ! i = pushed_clock (sp3_files s ! sp3_file_id s) s i))"
proof (cases "refill_triggered s t")
  case False
  with assms have "Update s t = Inr (s\<lparr>current_epoch_time := t\<rparr>)"
    by (simp add: Update_not_triggered)
  with False show ?thesis by (simp add: refill_triggered_def)
next
  case True
  let ?f = "sp3_files s ! sp3_file_id s"
  have pushed: "\<forall>i<32. orbit s' ! i = pushed_orbit ?f s i \<and> clock s' ! i = pushed_clock ?f s i"
    if r: "Update s t = Inr s'" for s'
  proof -
    from Update_Inr_cases [OF r] True assms(1) obtain f' where
      le: "32 \<le> length (orbit s)" "32 \<le> length (clock s)" and
      fu: "file_update ?f (pushed_upto ?f 32 (s\<lparr>current_epoch_time := t\<rparr>)) = Inr (f', s')"
      by auto
    from file_update_Inr_fields(1,2) [OF fu] le show ?thesis
      by (simp add: pushed_upto_nth)
  qed
  have "Update s t \<noteq> Inr (s\<lparr>current_epoch_time := t\<rparr>)"
  proof
    assume r: "Update s t = Inr (s\<lparr>current_epoch_time := t\<rparr>)"
    from Update_Inr_cases [OF r] True assms(1) obtain f' where
      fu: "file_update ?f (pushed_upto ?f 32 (s\<lparr>current_epoch_time := t\<rparr>))
             = Inr (f', s\<lparr>current_epoch_time := t\<rparr>)"
      by auto
    from file_update_Inr_fields(6) [OF fu] show False
      by (simp add: pushed_upto_fields)
  qed
  with True pushed show ?thesis by (simp add: refill_triggered_def)
qed

text \<open>
  The witness of C3: the manager seeded for 32 satellites from epoch 0, whose middle
  time-offset is 3600 s. At the offset 3600 s nothing is pushed; at 4500 s the sample is
  pushed.
\<close>

theorem refill_iff_past_middle_witness:
  "IsCalcEnabled gps_window \<and> sp3_file_id gps_window < length (sp3_files gps_window) \<and>
   orbit gps_window \<noteq> [] \<and> 4 < length (GetTimeList (orbit gps_window ! 0)) \<and>
   GetTimeList (orbit gps_window ! 0) ! 4 = 3600 \<and>
   GetTimeWithFraction_s (epoch_of_day1 4) - GetTimeWithFraction_s (reference_time gps_window) = 3600 \<and>
   Update gps_window (epoch_of_day1 4) = Inr (gps_window\<lparr>current_epoch_time := epoch_of_day1 4\<rparr>) \<and>
   GetTimeWithFraction_s (epoch_of_day1 5) - GetTimeWithFraction_s (reference_time gps_window) = 4500 \<and>
   Update gps_window (epoch_of_day1 5) \<noteq> Inr (gps_window\<lparr>current_epoch_time := epoch_of_day1 5\<rparr>) \<and>
   Update gps_window (epoch_of_day1 5) = Inr gps_window_updated \<and>
   orbit gps_window_updated ! 31 = pushed_orbit (sp3_files gps_window ! sp3_file_id gps_window) gps_window 31 \<and>
   clock gps_window_updated ! 31 = pushed_clock (sp3_files gps_window ! sp3_file_id gps_window) gps_window 31"
proof -
  note h = gps_window_fields(1-4)
  from refill_iff_past_middle [OF h, of "epoch_of_day1 4"] gps_window_fields(5) gps_window_offsets(1)
  have a: "Update gps_window (epoch_of_day1 4) = Inr (gps_window\<lparr>current_epoch_time := epoch_of_day1 4\<rparr>)"
    by simp
  from refill_iff_past_middle [OF h, of "epoch_of_day1 5"] gps_window_fields(5) gps_window_offsets(2)
  have b: "Update gps_window (epoch_of_day1 5) \<noteq> Inr (gps_window\<lparr>current_epoch_time := epoch_of_day1 5\<rparr>)"
    and c: "\<forall>s'. Update gps_window (epoch_of_day1 5) = Inr s' \<longrightarrow>
          (\<forall>i<32. orbit s' ! i = pushed_orbit (sp3_files gps_window ! sp3_file_id gps_window) gps_window i \<and>
                   clock s' ! i = pushed_clock (sp3_files gps_window ! sp3_file_id gps_window) gps_window i)"
    by simp_all
  from c Update_gps_window
  have d: "orbit gps_window_updated ! 31 = pushed_orbit (sp3_files gps_window ! sp3_file_id gps_window) gps_window 31 \<and>
   clock gps_window_updated ! 31 = pushed_clock (sp3_files gps_window ! sp3_file_id gps_window) gps_window 31"
    by simp
  from h gps_window_fields(5) gps_window_offsets a b Update_gps_window d show ?thesis by blast
qed

subsection \<open>C4: past the last file\<close>

text \<open>
  C4 says that, when the file list runs out, the manager never indexes the list outside
  its bounds. Both functions print the message and then read
  \<open>sp3_files_[sp3_file_id_]\<close> with the index equal to the size of the list. With the one
  file of a day: seeding from the last epoch of the day runs out in the fifth round;
  and the manager seeded from epoch 86 runs out in the first triggered \<open>Update\<close>.
\<close>

theorem file_read_past_the_last_file:
  "Initialize (new_GnssSatellites True True) [day1 2] (epoch_of_day1 95) = Inl (OutOfRange Sp3Files) \<and>
   Initialize (new_GnssSatellites True True) [day1 32] (epoch_of_day1 90) = Inr single_day_window \<and>
   Update single_day_window (epoch_of_day1 91) = Inl (OutOfRange Sp3Files)"
proof -
  have "[0..<9] = [0..<4] @ 4 # [5..<9]"
    using upt_add_eq_append [of 0 4 5] upt_conv_Cons [of 4 9] by simp
  moreover have "for_loop [0..<4] seed_step (day1 2, seeding 2 [day1 2] 91 0)
                   = Inr (day1 2, seeding 2 [day1 2] 91 4)"
    using for_loop_seeding [of 0 4 91 2 "[day1 2]"] by simp
  moreover have "seed_step 4 (day1 2, seeding 2 [day1 2] 91 4) = Inl (OutOfRange Sp3Files)"
    by (rule seed_step_seeding_over) simp_all
  ultimately have "for_loop [0..<9] seed_step (day1 2, seeding 2 [day1 2] 91 0) = Inl (OutOfRange Sp3Files)"
    by (simp only: for_loop_append for_loop.simps sum.case)
  then have a: "Initialize (new_GnssSatellites True True) [day1 2] (epoch_of_day1 95) = Inl (OutOfRange Sp3Files)"
    using seeding_0 [of 91 2 "[]"] by simp
  have b: "Initialize (new_GnssSatellites True True) [day1 32] (epoch_of_day1 90) = Inr single_day_window"
    using Initialize_day1 [of 86 32 "[]"] by (simp add: single_day_window_def steady_def)
  have c: "Update single_day_window (epoch_of_day1 91) = Inl (OutOfRange Sp3Files)"
    using Update_steady_over [of 32 86 91 32] by (simp add: single_day_window_def)
  from a b c show ?thesis by blast
qed

subsection \<open>C5: the reference time\<close>




subsection \<open>C6: query times outside the window\<close>

text \<open>
  C6 as amended: for every satellite id and every query time, when the offset from the
  reference time of the time the getter answers for (the query time, or the manager's
  current time when the query time's whole seconds are 0) is negative or exceeds 1e6
  seconds, \<open>GetPosition_ecef_m\<close> returns the zero vector and \<open>GetClock_s\<close> returns 0,
  and no vector is indexed.
\<close>

theorem out_of_window_gives_sentinels:
  assumes "GetTimeWithFraction_s (target_time s time) - GetTimeWithFraction_s (reference_time s) < 0 \<or>
           GetTimeWithFraction_s (target_time s time) - GetTimeWithFraction_s (reference_time s) > 1000000"
  shows "GetPosition_ecef_m trig s gnss_satellite_id time = Inr zero_vector \<and>
         GetClock_s s gnss_satellite_id time = Inr 0"
  using assms by (auto simp: GetPosition_ecef_m_def GetClock_s_def target_time_def Let_def)

text \<open>
  The witness of C6: a manager whose reference time is epoch 5, asked for epoch 0, 4500 s
  before.
\<close>

theorem out_of_window_gives_sentinels_witness:
  "0 < number_of_calculated_gnss_satellites later_window \<and>
   GetTime_s (epoch_of_day1 0) \<noteq> 0 \<and>
   GetTimeWithFraction_s (epoch_of_day1 0) - GetTimeWithFraction_s (reference_time later_window) = - 4500 \<and>
   GetPosition_ecef_m newest_position later_window 0 (epoch_of_day1 0) = Inr zero_vector \<and>
   GetClock_s later_window 0 (epoch_of_day1 0) = Inr 0"
proof -
  have t: "target_time later_window (epoch_of_day1 0) = epoch_of_day1 0"
    by (simp add: target_time_def GetTime_s_def epoch_of_day1_def)
  have d: "GetTimeWithFraction_s (epoch_of_day1 0) - GetTimeWithFraction_s (reference_time later_window) = - 4500"
    by (simp add: later_window_def steady_fields GetTimeWithFraction_s_def epoch_of_day1_def)
  from out_of_window_gives_sentinels [of later_window "epoch_of_day1 0" newest_position 0] t d
  show ?thesis
    by (simp add: later_window_def steady_fields GetTime_s_def epoch_of_day1_def)
qed

text \<open>
  The counterexample to C6 as stated: the query time of half a second lies before the
  reference time, and the tracked satellite 0 gets the clock offset interpolated at the
  current time, 5 microseconds, not the sentinel 0.
\<close>

theorem zero_seconds_query_answered_from_current_time:
  "Initialize (new_GnssSatellites True True) [day1 2] (epoch_of_day1 4) = Inr small_window \<and>
   0 < number_of_calculated_gnss_satellites small_window \<and>
   GetTimeWithFraction_s half_past_zero - GetTimeWithFraction_s (reference_time small_window) < 0 \<and>
   GetClock_s small_window 0 half_past_zero = Inr (5 / 1000000) \<and>
   GetClock_s small_window 0 half_past_zero \<noteq> Inr 0"
proof -
  have "GetClock_s small_window 0 half_past_zero
          = GetClock_s small_window 0 (current_epoch_time small_window)"
    by (simp add: GetClock_s_def GetTime_s_def half_past_zero_def)
  also have "\<dots> = Inr (5 / 1000000)"
    by (simp only: small_window_fields(3) GetClock_small_window_current)
  finally have c: "GetClock_s small_window 0 half_past_zero = Inr (5 / 1000000)" .
  have "GetTimeWithFraction_s half_past_zero - GetTimeWithFraction_s (reference_time small_window) < 0"
    by (simp add: small_window_fields GetTimeWithFraction_s_def half_past_zero_def epoch_of_day1_def)
  with c Initialize_small_window show ?thesis
    by (simp add: small_window_fields)
qed

subsection \<open>C7: the first file\<close>

text \<open>
  On a non-empty file list ordered by start time, \<open>Initialize\<close> seeds from the first
  file of the list whose range (the day from its start epoch) holds the start time, with
  the file index at that file's position; and when no file of the list holds the start
  time, \<open>Initialize\<close> prints the mismatch message and returns the manager with its
  buffers as they were.
\<close>

lemma Initialize_on_ordered_files:
  assumes "files \<noteq> []" "ordered_by_start files"
  shows "(\<forall>i. i < length files \<and> in_file_range (files ! i) start_time \<and>
              (\<forall>j<i. \<not> in_file_range (files ! j) start_time) \<longrightarrow>
            Initialize s files start_time
              = seed_buffers (files ! i)
                  (s\<lparr>sp3_files := files, current_epoch_time := start_time, sp3_file_id := i\<rparr>) start_time) \<and>
         ((\<forall>i<length files. \<not> in_file_range (files ! i) start_time) \<longrightarrow>
            Initialize s files start_time
              = Inr (s\<lparr>sp3_files := files, current_epoch_time := start_time,
                       console := console s @ [time_mismatch]\<rparr>))"
proof (intro conjI allI impI)
  fix i
  assume a: "i < length files \<and> in_file_range (files ! i) start_time \<and>
             (\<forall>j<i. \<not> in_file_range (files ! j) start_time)"
  have "24 * 60 * 60 \<le> GetTimeWithFraction_s start_time - GetTimeWithFraction_s (GetStartEpochDateTime (files ! j))"
    if "j < i" for j
  proof -
    from assms(2) that a
    have "GetTimeWithFraction_s (GetStartEpochDateTime (files ! j))
            \<le> GetTimeWithFraction_s (GetStartEpochDateTime (files ! i))"
      by (simp add: ordered_by_start_def sorted_wrt_iff_nth_less)
    moreover from a have "0 \<le> GetTimeWithFraction_s start_time - GetTimeWithFraction_s (GetStartEpochDateTime (files ! i))"
      by (simp add: in_file_range_def)
    moreover from a that have "\<not> in_file_range (files ! j) start_time" by simp
    ultimately show ?thesis by (simp add: in_file_range_def)
  qed
  with a have "search_sp3_file files 0 start_time = Some (0 + i)"
    by (intro search_sp3_file_first) auto
  with assms(1) show "Initialize s files start_time
              = seed_buffers (files ! i)
                  (s\<lparr>sp3_files := files, current_epoch_time := start_time, sp3_file_id := i\<rparr>) start_time"
    by (simp add: Initialize_def GetCurrentSp3File_def)
next
  assume "\<forall>i<length files. \<not> in_file_range (files ! i) start_time"
  then have "search_sp3_file files 0 start_time = None"
    by (rule search_sp3_file_none)
  with assms(1) show "Initialize s files start_time
              = Inr (s\<lparr>sp3_files := files, current_epoch_time := start_time,
                       console := console s @ [time_mismatch]\<rparr>)"
    by (simp add: Initialize_def GetCurrentSp3File_def)
qed

text \<open>
  Two days in order: a start time in the second day selects index 1, and a start time
  before the first day is a mismatch.
\<close>

lemma Initialize_two_days:
  "two_days \<noteq> [] \<and> ordered_by_start two_days \<and>
   in_file_range (two_days ! 1) (epoch_of_day1 100) \<and> \<not> in_file_range (two_days ! 0) (epoch_of_day1 100) \<and>
   Initialize (new_GnssSatellites True True) two_days (epoch_of_day1 100)
     = seed_buffers (two_days ! 1)
         (new_GnssSatellites True True
            \<lparr>sp3_files := two_days, current_epoch_time := epoch_of_day1 100, sp3_file_id := 1\<rparr>)
         (epoch_of_day1 100) \<and>
   \<not> in_file_range (two_days ! 0) before_day1 \<and> \<not> in_file_range (two_days ! 1) before_day1 \<and>
   Initialize (new_GnssSatellites True True) two_days before_day1
     = Inr (new_GnssSatellites True True
             \<lparr>sp3_files := two_days, current_epoch_time := before_day1,
               console := console (new_GnssSatellites True True) @ [time_mismatch]\<rparr>)"
proof -
  have ne: "two_days \<noteq> []" by (simp add: two_days_def)
  have r: "in_file_range (two_days ! 1) (epoch_of_day1 100)" "\<not> in_file_range (two_days ! 0) (epoch_of_day1 100)"
    by (simp_all add: two_days_def in_range_day1 in_range_day2)
  have b: "\<not> in_file_range (two_days ! 0) before_day1" "\<not> in_file_range (two_days ! 1) before_day1"
    by (simp_all add: two_days_def in_file_range_def day1_simps day2_start before_day1_def
          GetTimeWithFraction_s_def epoch_of_day1_def)
  have l: "length two_days = 2" by (simp add: two_days_def)
  have all_b: "\<forall>i<length two_days. \<not> in_file_range (two_days ! i) before_day1"
    using b by (simp add: l less_Suc_eq numeral_2_eq_2)
  have first: "1 < length two_days \<and> in_file_range (two_days ! 1) (epoch_of_day1 100) \<and>
      (\<forall>j<1. \<not> in_file_range (two_days ! j) (epoch_of_day1 100))"
    using r by (simp add: l)
  from Initialize_on_ordered_files [OF ne ordered_two_days, of "epoch_of_day1 100" "new_GnssSatellites True True"]
    first
  have sel: "Initialize (new_GnssSatellites True True) two_days (epoch_of_day1 100)
     = seed_buffers (two_days ! 1)
         (new_GnssSatellites True True
            \<lparr>sp3_files := two_days, current_epoch_time := epoch_of_day1 100, sp3_file_id := 1\<rparr>)
         (epoch_of_day1 100)"
    by blast
  from Initialize_on_ordered_files [OF ne ordered_two_days, of before_day1 "new_GnssSatellites True True"]
    all_b
  have mis: "Initialize (new_GnssSatellites True True) two_days before_day1
     = Inr (new_GnssSatellites True True
             \<lparr>sp3_files := two_days, current_epoch_time := before_day1,
               console := console (new_GnssSatellites True True) @ [time_mismatch]\<rparr>)"
    by blast
  from ne ordered_two_days r b sel mis show ?thesis by blast
qed

text \<open>
  C7 says that \<open>Initialize\<close> fails with the time mismatch, and returns without seeding
  any buffer, when no file of the list holds the start time. The empty list holds it in
  no file, and \<open>Initialize\<close> reads \<open>sp3_files_[0]\<close> before the search, outside the vector:
  no mismatch is reported and \<open>Initialize\<close> does not return as the claim says. The
  empty list is what \<open>InitGnssSatellites\<close> passes when the start date is after the end
  date. On the two days, a start time before the first file does get the mismatch.
\<close>

theorem empty_file_list_read_before_search:
  "InitGnssSatellites lib reversed_dates start_time
     = Some (Initialize (new_GnssSatellites True True\<lparr>console := [start_after_end]\<rparr>) [] start_time) \<and>
   Initialize s [] start_time = Inl (OutOfRange Sp3Files) \<and>
   Initialize (new_GnssSatellites True True) two_days before_day1
     = Inr (new_GnssSatellites True True
             \<lparr>sp3_files := two_days, current_epoch_time := before_day1,
               console := [time_mismatch]\<rparr>)"
proof -
  have a: "InitGnssSatellites lib reversed_dates start_time
     = Some (Initialize (new_GnssSatellites True True\<lparr>console := [start_after_end]\<rparr>) [] start_time)"
    by (simp add: InitGnssSatellites_def reversed_dates_def size_t_of_int_def IsCalcEnabled_def
          new_GnssSatellites_def read_product_files.simps)
  have b: "Initialize s [] start_time = Inl (OutOfRange Sp3Files)"
    by (simp add: Initialize_def)
  have "search_sp3_file two_days 0 before_day1 = None"
    by (simp add: two_days_def day1_simps before_day1_def GetTimeWithFraction_s_def epoch_of_day1_def)
  then have c: "Initialize (new_GnssSatellites True True) two_days before_day1
     = Inr (new_GnssSatellites True True
             \<lparr>sp3_files := two_days, current_epoch_time := before_day1,
               console := [time_mismatch]\<rparr>)"
    by (simp add: Initialize_def GetCurrentSp3File_def new_GnssSatellites_def two_days_def)
  from a b c show ?thesis by blast
qed

subsection \<open>C8: a start date after the end date\<close>

text \<open>
  C8 says that setup does not go on after a start date later than the end date.
  \<open>InitGnssSatellites\<close> prints the error and goes on: the loop reads no file, and
  \<open>Initialize\<close> is called with the empty list, where it reads \<open>sp3_files_[0]\<close>.
\<close>

theorem reversed_dates_reach_initialize:
  "size_t_of_int (ini_start_date reversed_dates) > size_t_of_int (ini_end_date reversed_dates) \<and>
   read_product_files lib reversed_dates True
      (size_t_of_int (ini_end_date reversed_dates)) (size_t_of_int (ini_start_date reversed_dates)) []
     = Some (Inr []) \<and>
   InitGnssSatellites lib reversed_dates start_epoch_time
     = Some (Initialize (new_GnssSatellites True True\<lparr>console := [start_after_end]\<rparr>) [] start_epoch_time) \<and>
   InitGnssSatellites lib reversed_dates start_epoch_time = Some (Inl (OutOfRange Sp3Files))"
  by (simp add: InitGnssSatellites_def reversed_dates_def size_t_of_int_def IsCalcEnabled_def
        new_GnssSatellites_def read_product_files.simps Initialize_def)

subsection \<open>C9: a query time with whole seconds 0\<close>

text \<open>
  C9. A query time whose whole seconds are 0 is answered, by both getters, as the
  manager's current time is, whatever its fraction of a second.
\<close>

theorem zero_seconds_read_as_unset:
  assumes "GetTime_s time = 0"
  shows "GetPosition_ecef_m trig s gnss_satellite_id time
           = GetPosition_ecef_m trig s gnss_satellite_id (current_epoch_time s) \<and>
         GetClock_s s gnss_satellite_id time = GetClock_s s gnss_satellite_id (current_epoch_time s)"
  using assms by (simp add: GetPosition_ecef_m_def GetClock_s_def)

text \<open>
  The witness of C9: the query time of half a second, answered as epoch 4, the current
  time of the manager.
\<close>

theorem zero_seconds_read_as_unset_witness:
  "GetTime_s half_past_zero = 0 \<and> fraction_s half_past_zero \<noteq> 0 \<and>
   current_epoch_time small_window = epoch_of_day1 4 \<and>
   GetClock_s small_window 0 half_past_zero = Inr (5 / 1000000) \<and>
   GetPosition_ecef_m newest_position small_window 0 half_past_zero
     = GetPosition_ecef_m newest_position small_window 0 (epoch_of_day1 4)"
proof -
  have z: "GetTime_s half_past_zero = 0"
    by (simp add: GetTime_s_def half_past_zero_def)
  from zero_seconds_read_as_unset [OF z, of newest_position small_window 0] z
  show ?thesis
    by (simp add: small_window_fields GetClock_small_window_current half_past_zero_def)
qed

subsection \<open>C10: what one Update changes\<close>

text \<open>
  C10. When \<open>Update\<close> returns, every orbit and clock buffer is the old one or the old
  one after one push, the number of buffers is the same, and the epoch index has grown by
  at most 1; and with the calculation enabled, the reads before the test inside their
  vectors and the refill not triggered, \<open>Update\<close> returns the manager with only the
  current time changed.
\<close>

theorem update_pushes_at_most_once:
  "(\<forall>s'. Update s t = Inr s' \<longrightarrow>
      length (orbit s') = length (orbit s) \<and> length (clock s') = length (clock s) \<and>
      (\<forall>i<length (orbit s). orbit s' ! i = orbit s ! i \<or>
           orbit s' ! i = pushed_orbit (sp3_files s ! sp3_file_id s) s i) \<and>
      (\<forall>i<length (clock s). clock s' ! i = clock s ! i \<or>
           clock s' ! i = pushed_clock (sp3_files s ! sp3_file_id s) s i) \<and>
      reference_interpolation_id s' \<le> reference_interpolation_id s + 1) \<and>
   (IsCalcEnabled s \<and> sp3_file_id s < length (sp3_files s) \<and> orbit s \<noteq> [] \<and>
    4 < length (GetTimeList (orbit s ! 0)) \<and> \<not> refill_triggered s t \<longrightarrow>
      Update s t = Inr (s\<lparr>current_epoch_time := t\<rparr>))"
proof (rule conjI)
  let ?f = "sp3_files s ! sp3_file_id s"
  show "\<forall>s'. Update s t = Inr s' \<longrightarrow>
      length (orbit s') = length (orbit s) \<and> length (clock s') = length (clock s) \<and>
      (\<forall>i<length (orbit s). orbit s' ! i = orbit s ! i \<or> orbit s' ! i = pushed_orbit ?f s i) \<and>
      (\<forall>i<length (clock s). clock s' ! i = clock s ! i \<or> clock s' ! i = pushed_clock ?f s i) \<and>
      reference_interpolation_id s' \<le> reference_interpolation_id s + 1"
  proof (rule allI, rule impI)
  fix s'
  assume u: "Update s t = Inr s'"
  let ?s1 = "s\<lparr>current_epoch_time := t\<rparr>"
  from Update_Inr_cases [OF u]
  consider (off) "s' = s" | (idle) "s' = ?s1"
    | (refill) f' where "file_update ?f (pushed_upto ?f 32 ?s1) = Inr (f', s')"
    by blast
  then show "length (orbit s') = length (orbit s) \<and> length (clock s') = length (clock s) \<and>
      (\<forall>i<length (orbit s). orbit s' ! i = orbit s ! i \<or> orbit s' ! i = pushed_orbit ?f s i) \<and>
      (\<forall>i<length (clock s). clock s' ! i = clock s ! i \<or> clock s' ! i = pushed_clock ?f s i) \<and>
      reference_interpolation_id s' \<le> reference_interpolation_id s + 1"
  proof cases
    case off
    then show ?thesis by simp
  next
    case idle
    then show ?thesis by simp
  next
    case refill
    note fu = file_update_Inr_fields [OF refill]
    have "orbit s' ! i = orbit s ! i \<or> orbit s' ! i = pushed_orbit ?f s i" if "i < length (orbit s)" for i
      using that fu(1) by (simp add: pushed_upto_nth)
    moreover have "clock s' ! i = clock s ! i \<or> clock s' ! i = pushed_clock ?f s i" if "i < length (clock s)" for i
      using that fu(2) by (simp add: pushed_upto_nth)
    moreover have "reference_interpolation_id s' \<le> reference_interpolation_id s + 1"
      using fu(5) by (simp add: pushed_upto_fields)
    moreover have "length (orbit s') = length (orbit s)" "length (clock s') = length (clock s)"
      using fu(1,2) by (simp_all add: pushed_upto_fields)
    ultimately show ?thesis by simp
  qed
  qed
next
  show "IsCalcEnabled s \<and> sp3_file_id s < length (sp3_files s) \<and> orbit s \<noteq> [] \<and>
    4 < length (GetTimeList (orbit s ! 0)) \<and> \<not> refill_triggered s t \<longrightarrow>
      Update s t = Inr (s\<lparr>current_epoch_time := t\<rparr>)"
    by (simp add: Update_not_triggered)
qed

text \<open>
  The witness of C10: the manager seeded for 32 satellites, updated past the middle of
  its window (one push, epoch index from 9 to 10) and not past it (current time only).
\<close>

theorem update_pushes_at_most_once_witness:
  "Update gps_window (epoch_of_day1 5) = Inr gps_window_updated \<and>
   length (orbit gps_window_updated) = length (orbit gps_window) \<and>
   length (clock gps_window_updated) = length (clock gps_window) \<and>
   reference_interpolation_id gps_window = 9 \<and>
   reference_interpolation_id gps_window_updated \<le> 9 + 1 \<and>
   IsCalcEnabled gps_window \<and> sp3_file_id gps_window < length (sp3_files gps_window) \<and>
   orbit gps_window \<noteq> [] \<and> 4 < length (GetTimeList (orbit gps_window ! 0)) \<and>
   \<not> refill_triggered gps_window (epoch_of_day1 4) \<and>
   Update gps_window (epoch_of_day1 4) = Inr (gps_window\<lparr>current_epoch_time := epoch_of_day1 4\<rparr>)"
proof -
  from update_pushes_at_most_once [of gps_window "epoch_of_day1 5"] Update_gps_window
  have "length (orbit gps_window_updated) = length (orbit gps_window) \<and>
    length (clock gps_window_updated) = length (clock gps_window) \<and>
    reference_interpolation_id gps_window_updated \<le> reference_interpolation_id gps_window + 1"
    by blast
  moreover from update_pushes_at_most_once [of gps_window "epoch_of_day1 4"]
    gps_window_fields(1-4) gps_window_triggered(1)
  have "Update gps_window (epoch_of_day1 4) = Inr (gps_window\<lparr>current_epoch_time := epoch_of_day1 4\<rparr>)"
    by blast
  ultimately show ?thesis
    using Update_gps_window gps_window_fields(1-4,7) gps_window_triggered(1) by simp
qed

end
